theory Spec2Isabelle
  imports Main
begin

section \<open>Python values and exceptions\<close>

text \<open>
  The scraper service (\<^verbatim>\<open>backend/app/services/scraper.py\<close>) works on the objects that
  \<^verbatim>\<open>response.json()\<close> returns: \<^verbatim>\<open>None\<close>, booleans, integers, strings, lists and
  dictionaries. A dictionary is an association list read with \<^const>\<open>map_of\<close>. Python
  does not tell an absent key read with \<^verbatim>\<open>.get\<close> from a key holding \<^verbatim>\<open>None\<close>:
  both are \<open>JNull\<close> here. Numbers with a fraction (Python floats) are outside this model.
\<close>

datatype json =
    JNull
  | JBool bool
  | JInt int
  | JStr string
  | JArr "json list"
  | JObj "(string \<times> json) list"

text \<open>Python truth value testing, as used by \<^verbatim>\<open>or\<close> and \<^verbatim>\<open>if\<close>.\<close>

fun truthy :: "json \<Rightarrow> bool" where
  "truthy JNull = False"
| "truthy (JBool b) = b"
| "truthy (JInt n) = (n \<noteq> 0)"
| "truthy (JStr s) = (s \<noteq> [])"
| "truthy (JArr xs) = (xs \<noteq> [])"
| "truthy (JObj kv) = (kv \<noteq> [])"

text \<open>
  The exceptions that occur in the service. The classes of \<^verbatim>\<open>app.services.exceptions\<close>
  are imported by the service; the built-in ones are raised by the calls it makes.
\<close>

datatype exn =
    SupadataAuthError
  | SupadataCreditsExhausted
  | SupadataAPIError string "int option"
  | InvalidTikTokURLError string
  | ValueError string
  | JSONDecodeError string
  | AttributeError string
  | HTTPError string

text \<open>
  Modelled from the spec: the exception classes of \<^verbatim>\<open>app.services.exceptions\<close> are the
  tagged variants \<^verbatim>\<open>AuthError\<close>, \<^verbatim>\<open>QuotaExhausted\<close>, \<^verbatim>\<open>GenericAPIError{statusCode, message}\<close>
  and \<^verbatim>\<open>InvalidInput{reason}\<close>. \<open>SupadataAPIError m sc\<close> carries its message and its
  \<^verbatim>\<open>status_code\<close> keyword, which is absent (\<open>None\<close>) when the constructor is called with
  the message alone, and \<^verbatim>\<open>str\<close> of it is the message. None of the four is taken to be
  a subclass of \<^verbatim>\<open>ValueError\<close> or of \<^verbatim>\<open>httpx.HTTPError\<close>. \<open>JSONDecodeError\<close> is
  Python's \<^verbatim>\<open>json.JSONDecodeError\<close>, a subclass of \<^verbatim>\<open>ValueError\<close>; \<open>HTTPError\<close> is
  \<^verbatim>\<open>httpx.HTTPError\<close>.
\<close>

definition bindE :: "exn + 'a \<Rightarrow> ('a \<Rightarrow> exn + 'b) \<Rightarrow> exn + 'b" where
  "bindE m f = (case m of Inl e \<Rightarrow> Inl e | Inr x \<Rightarrow> f x)"

fun type_name :: "json \<Rightarrow> string" where
  "type_name JNull = ''NoneType''"
| "type_name (JBool b) = ''bool''"
| "type_name (JInt n) = ''int''"
| "type_name (JStr s) = ''str''"
| "type_name (JArr xs) = ''list''"
| "type_name (JObj kv) = ''dict''"

definition no_attribute_get :: "json \<Rightarrow> exn" where
  "no_attribute_get v =
     AttributeError ([CHR 0x27] @ type_name v @ [CHR 0x27] @ '' object has no attribute ''
                     @ [CHR 0x27] @ ''get'' @ [CHR 0x27])"

text \<open>Reading a dictionary with \<^verbatim>\<open>.get(key)\<close>: the value, or \<^verbatim>\<open>None\<close> for an absent key.\<close>

definition dict_get :: "(string \<times> json) list \<Rightarrow> string \<Rightarrow> json" where
  "dict_get kv k = (case map_of kv k of None \<Rightarrow> JNull | Some v \<Rightarrow> v)"

text \<open>\<^verbatim>\<open>obj.get(key)\<close>: only a dictionary has the method.\<close>

fun py_get :: "json \<Rightarrow> string \<Rightarrow> exn + json" where
  "py_get (JObj kv) k = Inr (dict_get kv k)"
| "py_get v k = Inl (no_attribute_get v)"

text \<open>\<^verbatim>\<open>obj.get(key, default)\<close>.\<close>

fun py_get_default :: "json \<Rightarrow> string \<Rightarrow> json \<Rightarrow> exn + json" where
  "py_get_default (JObj kv) k d = Inr (case map_of kv k of None \<Rightarrow> d | Some v \<Rightarrow> v)"
| "py_get_default v k d = Inl (no_attribute_get v)"

text \<open>\<^verbatim>\<open>str(n)\<close> for an integer, in decimal.\<close>

definition digit_char :: "nat \<Rightarrow> char" where
  "digit_char d = char_of (48 + d)"

fun str_nat :: "nat \<Rightarrow> string" where
  "str_nat n = (if n < 10 then [digit_char n] else str_nat (n div 10) @ [digit_char (n mod 10)])"

declare str_nat.simps [simp del]

definition str_int :: "int \<Rightarrow> string" where
  "str_int i = (if i < 0 then ''-'' @ str_nat (nat (- i)) else str_nat (nat i))"

section \<open>Settings and schemas\<close>

text \<open>\<^verbatim>\<open>backend/app/core/config.py\<close>: the settings the service reads, with their defaults.\<close>

record settings =
  SUPADATA_API_KEY :: string
  SUPADATA_BASE_URL :: string
  SUPADATA_METADATA_ENDPOINT :: string
  SUPADATA_TRANSCRIPT_ENDPOINT :: string
  REQUEST_TIMEOUT :: int
  MAX_RETRIES :: int

definition default_settings :: "string \<Rightarrow> settings" where
  "default_settings key =
     \<lparr> SUPADATA_API_KEY = key,
       SUPADATA_BASE_URL = ''https://api.supadata.ai/v1'',
       SUPADATA_METADATA_ENDPOINT = ''/tiktok/metadata'',
       SUPADATA_TRANSCRIPT_ENDPOINT = ''/transcript'',
       REQUEST_TIMEOUT = 30,
       MAX_RETRIES = 3 \<rparr>"

text \<open>
  Modelled from the spec: the schema classes of \<^verbatim>\<open>app.schemas.tiktok\<close>
  (\<^verbatim>\<open>TikTokMetadata\<close>, \<^verbatim>\<open>TikTokTranscript\<close>, \<^verbatim>\<open>TikTokData\<close>) are records of nullable
  fields that hold the values they are given; the fields are the keyword arguments the
  service passes. The metadata fields carry the prefix \<open>meta_\<close> and the transcript fields
  the prefix \<open>tr_\<close>, since \<^verbatim>\<open>TikTokData\<close> has fields of the same names.
\<close>

record tiktok_metadata =
  meta_title :: json
  meta_description :: json
  meta_audio_url :: json
  meta_author :: json
  meta_likes :: json
  meta_views :: json
  meta_shares :: json
  meta_comments :: json

record tiktok_transcript =
  tr_text :: json
  tr_language :: json

record tiktok_data =
  url :: string
  video_id :: string
  title :: json
  description :: json
  audio_url :: json
  author :: json
  likes :: json
  views :: json
  shares :: json
  comments :: json
  transcript :: json
  transcript_language :: json
  has_transcript :: bool

section \<open>The upstream client\<close>

text \<open>
  An HTTP response as the service reads it: \<^verbatim>\<open>status_code\<close>, \<^verbatim>\<open>text\<close>, and the outcome
  of \<^verbatim>\<open>json()\<close>, which is the decoded body or the message of the
  \<^verbatim>\<open>json.JSONDecodeError\<close> it raises.
\<close>

record response =
  status_code :: int
  resp_text :: string
  resp_json :: "string + json"

definition response_json :: "response \<Rightarrow> exn + json" where
  "response_json r = (case resp_json r of Inl msg \<Rightarrow> Inl (JSONDecodeError msg) | Inr j \<Rightarrow> Inr j)"

text \<open>
  The awaited \<^verbatim>\<open>client.get(endpoint, params={"url": url}, ...)\<close>: the endpoint and the
  \<^verbatim>\<open>url\<close> parameter determine either the response or the exception raised by the
  transport.
\<close>

type_synonym client = "string \<Rightarrow> string \<Rightarrow> exn + response"

record scraper =
  base_url :: string
  api_key :: string
  timeout :: int

text \<open>\<^verbatim>\<open>TikTokScraper.__init__\<close>.\<close>

definition TikTokScraper :: "settings \<Rightarrow> exn + scraper" where
  "TikTokScraper st =
     (if SUPADATA_API_KEY st = [] then Inl (ValueError ''SUPADATA_API_KEY is not configured'')
      else Inr \<lparr> base_url = SUPADATA_BASE_URL st,
                 api_key = SUPADATA_API_KEY st,
                 timeout = REQUEST_TIMEOUT st \<rparr>)"

text \<open>
  The two shapes of field expression in \<^verbatim>\<open>_fetch_metadata\<close> and \<^verbatim>\<open>_fetch_transcript\<close>:
  \<^verbatim>\<open>data.get(k1) or data.get(k2)\<close> and \<^verbatim>\<open>data.get(k) or data.get(c, {}).get(a)\<close>.
\<close>

definition get_or_get :: "json \<Rightarrow> string \<Rightarrow> string \<Rightarrow> exn + json" where
  "get_or_get data k1 k2 =
     bindE (py_get data k1) (\<lambda>x. if truthy x then Inr x else py_get data k2)"

definition get_or_nested :: "json \<Rightarrow> string \<Rightarrow> string \<Rightarrow> string \<Rightarrow> exn + json" where
  "get_or_nested data k c a =
     bindE (py_get data k) (\<lambda>x. if truthy x then Inr x
        else bindE (py_get_default data c (JObj [])) (\<lambda>sub. py_get sub a))"

text \<open>
  The construction of \<^verbatim>\<open>TikTokMetadata\<close> in \<^verbatim>\<open>_fetch_metadata\<close>: the keyword
  arguments are evaluated in the order written, and the first one that raises ends the
  evaluation.
\<close>

definition metadata_of :: "json \<Rightarrow> exn + tiktok_metadata" where
  "metadata_of data =
     bindE (get_or_get data ''title'' ''desc'') (\<lambda>v_title.
     bindE (get_or_get data ''description'' ''desc'') (\<lambda>v_description.
     bindE (get_or_nested data ''audio_url'' ''music'' ''playUrl'') (\<lambda>v_audio_url.
     bindE (get_or_nested data ''author'' ''author'' ''uniqueId'') (\<lambda>v_author.
     bindE (get_or_nested data ''likes'' ''stats'' ''diggCount'') (\<lambda>v_likes.
     bindE (get_or_nested data ''views'' ''stats'' ''playCount'') (\<lambda>v_views.
     bindE (get_or_nested data ''shares'' ''stats'' ''shareCount'') (\<lambda>v_shares.
     bindE (get_or_nested data ''comments'' ''stats'' ''commentCount'') (\<lambda>v_comments.
       Inr \<lparr> meta_title = v_title,
             meta_description = v_description,
             meta_audio_url = v_audio_url,
             meta_author = v_author,
             meta_likes = v_likes,
             meta_views = v_views,
             meta_shares = v_shares,
             meta_comments = v_comments \<rparr>))))))))"

text \<open>The body of the \<^verbatim>\<open>try\<close> block of \<^verbatim>\<open>_fetch_metadata\<close>.\<close>

definition fetch_metadata_try :: "settings \<Rightarrow> scraper \<Rightarrow> string \<Rightarrow> client \<Rightarrow> exn + tiktok_metadata" where
  "fetch_metadata_try st self u cl =
     bindE (cl (base_url self @ SUPADATA_METADATA_ENDPOINT st) u) (\<lambda>response.
       if status_code response = 401 then Inl SupadataAuthError
       else if status_code response = 402 then Inl SupadataCreditsExhausted
       else if status_code response \<ge> 400 then
         Inl (SupadataAPIError
               (''Metadata API error: '' @ str_int (status_code response) @ '' - '' @ resp_text response)
               (Some (status_code response)))
       else bindE (response_json response) metadata_of)"

text \<open>\<^verbatim>\<open>_fetch_metadata\<close>: the \<^verbatim>\<open>try\<close> block under its \<^verbatim>\<open>except httpx.HTTPError\<close> clause.\<close>

definition fetch_metadata :: "settings \<Rightarrow> scraper \<Rightarrow> string \<Rightarrow> client \<Rightarrow> exn + tiktok_metadata" where
  "fetch_metadata st self u cl =
     (case fetch_metadata_try st self u cl of
        Inl (HTTPError msg) \<Rightarrow> Inl (SupadataAPIError (''Failed to fetch metadata: '' @ msg) None)
      | r \<Rightarrow> r)"

text \<open>
  The parsing of the decoded body in \<^verbatim>\<open>_fetch_transcript\<close>: a transcript object when
  the text found is truthy, \<^verbatim>\<open>None\<close> otherwise.
\<close>

definition transcript_of :: "json \<Rightarrow> exn + tiktok_transcript option" where
  "transcript_of data =
     bindE (get_or_get data ''text'' ''transcript'') (\<lambda>transcript_text.
     bindE (get_or_get data ''language'' ''lang'') (\<lambda>language.
       if truthy transcript_text
       then Inr (Some \<lparr> tr_text = transcript_text, tr_language = language \<rparr>)
       else Inr None))"

text \<open>The body of the \<^verbatim>\<open>try\<close> block of \<^verbatim>\<open>_fetch_transcript\<close>.\<close>

definition fetch_transcript_try :: "settings \<Rightarrow> scraper \<Rightarrow> string \<Rightarrow> client \<Rightarrow> exn + tiktok_transcript option" where
  "fetch_transcript_try st self u cl =
     bindE (cl (base_url self @ SUPADATA_TRANSCRIPT_ENDPOINT st) u) (\<lambda>response.
       if status_code response = 404 then Inr None
       else if status_code response = 401 then Inl SupadataAuthError
       else if status_code response = 402 then Inl SupadataCreditsExhausted
       else if status_code response \<ge> 400 then
         Inl (SupadataAPIError
               (''Transcript API error: '' @ str_int (status_code response) @ '' - '' @ resp_text response)
               (Some (status_code response)))
       else bindE (response_json response) transcript_of)"

text \<open>\<^verbatim>\<open>_fetch_transcript\<close>.\<close>

definition fetch_transcript :: "settings \<Rightarrow> scraper \<Rightarrow> string \<Rightarrow> client \<Rightarrow> exn + tiktok_transcript option" where
  "fetch_transcript st self u cl =
     (case fetch_transcript_try st self u cl of
        Inl (HTTPError msg) \<Rightarrow> Inl (SupadataAPIError (''Failed to fetch transcript: '' @ msg) None)
      | r \<Rightarrow> r)"

section \<open>The orchestrator\<close>

text \<open>
  What \<^verbatim>\<open>fetch_tiktok_data\<close> depends on beyond its argument: the three functions of
  \<^verbatim>\<open>app.utils.url_utils\<close> (each returns a string or raises), the upstream, and which of
  the two concurrent calls finishes first.
\<close>

datatype task = MetadataTask | TranscriptTask

record env =
  clean_tiktok_url :: "string \<Rightarrow> exn + string"
  resolve_short_url :: "string \<Rightarrow> exn + string"
  extract_video_id :: "string \<Rightarrow> exn + string"
  http :: client
  first_done :: task

text \<open>
  \<^verbatim>\<open>await asyncio.gather(a, b, return_exceptions=False)\<close>: the results of both when
  both return, otherwise the exception of the call that raised first.
\<close>

definition gather :: "task \<Rightarrow> exn + 'a \<Rightarrow> exn + 'b \<Rightarrow> exn + ('a \<times> 'b)" where
  "gather first a b =
     (case (a, b) of
        (Inr x, Inr y) \<Rightarrow> Inr (x, y)
      | (Inl e, Inr y) \<Rightarrow> Inl e
      | (Inr x, Inl e) \<Rightarrow> Inl e
      | (Inl e1, Inl e2) \<Rightarrow> Inl (if first = MetadataTask then e1 else e2))"

text \<open>The body of the \<^verbatim>\<open>try\<close> block of \<^verbatim>\<open>fetch_tiktok_data\<close>.\<close>

definition fetch_tiktok_data_try :: "settings \<Rightarrow> scraper \<Rightarrow> env \<Rightarrow> string \<Rightarrow> exn + tiktok_data" where
  "fetch_tiktok_data_try st self ev video_url =
     bindE (clean_tiktok_url ev video_url) (\<lambda>cleaned_url.
     bindE (resolve_short_url ev cleaned_url) (\<lambda>resolved_url.
     bindE (extract_video_id ev resolved_url) (\<lambda>vid.
     bindE (gather (first_done ev)
              (fetch_metadata st self resolved_url (http ev))
              (fetch_transcript st self resolved_url (http ev))) (\<lambda>(metadata, tr).
       Inr \<lparr> url = resolved_url,
             video_id = vid,
             title = meta_title metadata,
             description = meta_description metadata,
             audio_url = meta_audio_url metadata,
             author = meta_author metadata,
             likes = meta_likes metadata,
             views = meta_views metadata,
             shares = meta_shares metadata,
             comments = meta_comments metadata,
             transcript = (case tr of None \<Rightarrow> JNull | Some t \<Rightarrow> tr_text t),
             transcript_language = (case tr of None \<Rightarrow> JNull | Some t \<Rightarrow> tr_language t),
             has_transcript = (case tr of None \<Rightarrow> False | Some t \<Rightarrow> tr_text t \<noteq> JNull) \<rparr>))))"

text \<open>
  The \<^verbatim>\<open>except\<close> clauses of \<^verbatim>\<open>fetch_tiktok_data\<close>, in their order: \<^verbatim>\<open>ValueError\<close>
  (and its subclasses) becomes \<^verbatim>\<open>InvalidTikTokURLError(str(e))\<close>, the two auth/credits
  errors are re-raised, and any other exception becomes
  \<^verbatim>\<open>SupadataAPIError(f"Failed to fetch TikTok data: {str(e)}")\<close>.
\<close>

fun except_clauses :: "exn \<Rightarrow> exn" where
  "except_clauses (ValueError msg) = InvalidTikTokURLError msg"
| "except_clauses (JSONDecodeError msg) = InvalidTikTokURLError msg"
| "except_clauses SupadataAuthError = SupadataAuthError"
| "except_clauses SupadataCreditsExhausted = SupadataCreditsExhausted"
| "except_clauses (SupadataAPIError msg sc) = SupadataAPIError (''Failed to fetch TikTok data: '' @ msg) None"
| "except_clauses (InvalidTikTokURLError msg) = SupadataAPIError (''Failed to fetch TikTok data: '' @ msg) None"
| "except_clauses (AttributeError msg) = SupadataAPIError (''Failed to fetch TikTok data: '' @ msg) None"
| "except_clauses (HTTPError msg) = SupadataAPIError (''Failed to fetch TikTok data: '' @ msg) None"

text \<open>\<^verbatim>\<open>TikTokScraper.fetch_tiktok_data\<close>.\<close>

definition fetch_tiktok_data :: "settings \<Rightarrow> scraper \<Rightarrow> env \<Rightarrow> string \<Rightarrow> exn + tiktok_data" where
  "fetch_tiktok_data st self ev video_url =
     (case fetch_tiktok_data_try st self ev video_url of
        Inl e \<Rightarrow> Inl (except_clauses e)
      | Inr d \<Rightarrow> Inr d)"

text \<open>
  The record that \<^verbatim>\<open>fetch_tiktok_data\<close> builds from the resolved URL, the video
  identifier and the two results, under a name of its own for the proofs below.
\<close>

definition assemble :: "string \<Rightarrow> string \<Rightarrow> tiktok_metadata \<Rightarrow> tiktok_transcript option \<Rightarrow> tiktok_data" where
  "assemble u vid m tr =
     \<lparr> url = u,
       video_id = vid,
       title = meta_title m,
       description = meta_description m,
       audio_url = meta_audio_url m,
       author = meta_author m,
       likes = meta_likes m,
       views = meta_views m,
       shares = meta_shares m,
       comments = meta_comments m,
       transcript = (case tr of None \<Rightarrow> JNull | Some t \<Rightarrow> tr_text t),
       transcript_language = (case tr of None \<Rightarrow> JNull | Some t \<Rightarrow> tr_language t),
       has_transcript = (case tr of None \<Rightarrow> False | Some t \<Rightarrow> tr_text t \<noteq> JNull) \<rparr>"

section \<open>The specification's words\<close>

text \<open>
  The specification derives \<^verbatim>\<open>hasTranscript\<close> as "transcript present AND
  transcript.text non-empty": the text is neither null nor the empty string.
\<close>

definition text_nonempty :: "json \<Rightarrow> bool" where
  "text_nonempty v = (v \<noteq> JNull \<and> v \<noteq> JStr [])"

definition spec_has_transcript :: "tiktok_transcript option \<Rightarrow> bool" where
  "spec_has_transcript tr = (case tr of None \<Rightarrow> False | Some t \<Rightarrow> text_nonempty (tr_text t))"

text \<open>
  The error that a run raises at a boundary: the exception of the first normalisation step
  that fails, or else the exception of either fetcher.
\<close>

definition raised_at_boundary :: "settings \<Rightarrow> scraper \<Rightarrow> env \<Rightarrow> string \<Rightarrow> exn \<Rightarrow> bool" where
  "raised_at_boundary st self ev video_url e =
     (case clean_tiktok_url ev video_url of
        Inl e1 \<Rightarrow> e = e1
      | Inr c \<Rightarrow>
         (case resolve_short_url ev c of
            Inl e2 \<Rightarrow> e = e2
          | Inr u \<Rightarrow>
             (case extract_video_id ev u of
                Inl e3 \<Rightarrow> e = e3
              | Inr vid \<Rightarrow> fetch_metadata st self u (http ev) = Inl e
                           \<or> fetch_transcript st self u (http ev) = Inl e)))"

text \<open>
  The fallback chain as the specification words it: the flat key when it is present, else
  the value found under the alias, which is null when the alias is absent.
\<close>

definition spec_field :: "(string \<times> json) list \<Rightarrow> string \<Rightarrow> json \<Rightarrow> json" where
  "spec_field kv k alias_value = (case map_of kv k of Some v \<Rightarrow> v | None \<Rightarrow> alias_value)"

text \<open>
  The fallback chain as Python's \<^verbatim>\<open>or\<close> computes it: the first operand when it is
  truthy, else the second. The nested alias is read in a container that is an object;
  \<open>fallback_ok\<close> says that the flat value is truthy or the container is absent or an
  object.
\<close>

definition first_truthy :: "json \<Rightarrow> json \<Rightarrow> json" where
  "first_truthy a b = (if truthy a then a else b)"

definition nested_get :: "(string \<times> json) list \<Rightarrow> string \<Rightarrow> string \<Rightarrow> json" where
  "nested_get kv c a = (case map_of kv c of Some (JObj sub) \<Rightarrow> dict_get sub a | _ \<Rightarrow> JNull)"

definition fallback_ok :: "(string \<times> json) list \<Rightarrow> string \<Rightarrow> string \<Rightarrow> bool" where
  "fallback_ok kv k c =
     (truthy (dict_get kv k) \<or>
      (case map_of kv c of None \<Rightarrow> True | Some (JObj sub) \<Rightarrow> True | Some _ \<Rightarrow> False))"

section \<open>Example inputs\<close>

text \<open>A scraper built from the default settings, and upstreams that answer with fixed outcomes.\<close>

definition example_settings :: settings where
  "example_settings = default_settings ''key''"

definition example_scraper :: scraper where
  "example_scraper = \<lparr> base_url = ''https://api.supadata.ai/v1'', api_key = ''key'', timeout = 30 \<rparr>"

definition respond :: "int \<Rightarrow> string \<Rightarrow> string + json \<Rightarrow> exn + response" where
  "respond s t j = Inr \<lparr> status_code = s, resp_text = t, resp_json = j \<rparr>"

text \<open>An upstream with one outcome for the metadata endpoint and one for every other endpoint.\<close>

definition upstream :: "exn + response \<Rightarrow> exn + response \<Rightarrow> client" where
  "upstream m t = (\<lambda>endpoint u.
     if endpoint = ''https://api.supadata.ai/v1/tiktok/metadata'' then m else t)"

text \<open>The two bodies of the specification's scenarios.\<close>

definition example_metadata_body :: json where
  "example_metadata_body = JObj [(''desc'', JStr ''hello''), (''stats'', JObj [(''diggCount'', JInt 5)])]"

definition example_transcript_body :: json where
  "example_transcript_body = JObj [(''transcript'', JStr ''hi there''), (''lang'', JStr ''en'')]"

text \<open>
  An environment for the scenario of the specification: the short link
  \<^verbatim>\<open>https://vt.tiktok.com/ABC123/\<close> resolves to the long form, whose identifier is
  \<^verbatim>\<open>7000000000000000000\<close>; an empty input is rejected.
\<close>

definition example_env :: "client \<Rightarrow> task \<Rightarrow> env" where
  "example_env cl first =
     \<lparr> clean_tiktok_url = (\<lambda>x. if x = [] then Inl (ValueError ''URL cannot be empty'') else Inr x),
       resolve_short_url = (\<lambda>c. if c = ''https://vt.tiktok.com/ABC123/''
                                  then Inr ''https://www.tiktok.com/@user/video/7000000000000000000''
                                  else Inr c),
       extract_video_id = (\<lambda>u. Inr ''7000000000000000000''),
       http = cl,
       first_done = first \<rparr>"

text \<open>The records of the two scenarios: a transcript found, and a transcript answered with 404.\<close>

definition example_data :: tiktok_data where
  "example_data =
     \<lparr> url = ''https://www.tiktok.com/@user/video/7000000000000000000'',
       video_id = ''7000000000000000000'',
       title = JStr ''hello'', description = JStr ''hello'', audio_url = JNull, author = JNull,
       likes = JInt 5, views = JNull, shares = JNull, comments = JNull,
       transcript = JStr ''hi there'', transcript_language = JStr ''en'', has_transcript = True \<rparr>"

definition example_data_404 :: tiktok_data where
  "example_data_404 =
     \<lparr> url = ''https://www.tiktok.com/@user/video/7000000000000000000'',
       video_id = ''7000000000000000000'',
       title = JStr ''hello'', description = JStr ''hello'', audio_url = JNull, author = JNull,
       likes = JInt 5, views = JNull, shares = JNull, comments = JNull,
       transcript = JNull, transcript_language = JNull, has_transcript = False \<rparr>"

text \<open>
  Two more bodies: a transcript whose text is empty, and a metadata payload whose
  \<^verbatim>\<open>music\<close> is null.
\<close>

definition example_empty_transcript_body :: json where
  "example_empty_transcript_body = JObj [(''text'', JStr []), (''lang'', JStr ''en'')]"

definition example_null_music_body :: json where
  "example_null_music_body = JObj [(''music'', JNull)]"

section \<open>Exceptions raised by the parsing steps\<close>

lemma bindE_Inl: "bindE m f = Inl e \<Longrightarrow> m = Inl e \<or> (\<exists>x. m = Inr x \<and> f x = Inl e)"
  by (cases m) (simp_all add: bindE_def)

lemma bindE_Inr [simp]: "bindE (Inr x) f = f x"
  by (simp add: bindE_def)

lemma bindE_Inl_arg [simp]: "bindE (Inl e) f = Inl e"
  by (simp add: bindE_def)

lemma py_get_raises: "py_get d k = Inl e \<Longrightarrow> e = no_attribute_get d"
  by (cases d) simp_all

lemma py_get_default_raises: "py_get_default d k x = Inl e \<Longrightarrow> e = no_attribute_get d"
  by (cases d) simp_all

lemma get_or_get_raises: "get_or_get d k1 k2 = Inl e \<Longrightarrow> \<exists>v. e = no_attribute_get v"
  unfolding get_or_get_def
  by (auto dest!: bindE_Inl split: if_splits) (blast dest: py_get_raises)+

lemma get_or_nested_raises: "get_or_nested d k c a = Inl e \<Longrightarrow> \<exists>v. e = no_attribute_get v"
  unfolding get_or_nested_def
  by (auto dest!: bindE_Inl split: if_splits) (blast dest: py_get_raises py_get_default_raises)+

lemma metadata_of_raises: "metadata_of d = Inl e \<Longrightarrow> \<exists>v. e = no_attribute_get v"
  unfolding metadata_of_def
  by (auto dest!: bindE_Inl dest: get_or_get_raises get_or_nested_raises)

lemma transcript_of_raises: "transcript_of d = Inl e \<Longrightarrow> \<exists>v. e = no_attribute_get v"
  unfolding transcript_of_def
  by (auto dest!: bindE_Inl dest: get_or_get_raises split: if_splits)

lemma metadata_of_not_http: "metadata_of d \<noteq> Inl (HTTPError m)"
  using metadata_of_raises [of d "HTTPError m"] by (auto simp: no_attribute_get_def)

lemma transcript_of_not_http: "transcript_of d \<noteq> Inl (HTTPError m)"
  using transcript_of_raises [of d "HTTPError m"] by (auto simp: no_attribute_get_def)

section \<open>Status codes and outcomes of the two fetchers\<close>

lemma except_http_other:
  "(\<And>m. x \<noteq> Inl (HTTPError m)) \<Longrightarrow> (case x of Inl (HTTPError msg) \<Rightarrow> f msg | r \<Rightarrow> r) = x"
  by (cases x) (auto split: exn.splits)

lemma fetch_metadata_transport:
  "cl (base_url self @ SUPADATA_METADATA_ENDPOINT st) u = Inl (HTTPError msg) \<Longrightarrow>
   fetch_metadata st self u cl = Inl (SupadataAPIError (''Failed to fetch metadata: '' @ msg) None)"
  by (simp add: fetch_metadata_def fetch_metadata_try_def)

lemma fetch_metadata_response:
  assumes "cl (base_url self @ SUPADATA_METADATA_ENDPOINT st) u = Inr r"
  shows "fetch_metadata st self u cl =
     (if status_code r = 401 then Inl SupadataAuthError
      else if status_code r = 402 then Inl SupadataCreditsExhausted
      else if 400 \<le> status_code r then
        Inl (SupadataAPIError (''Metadata API error: '' @ str_int (status_code r) @ '' - '' @ resp_text r)
               (Some (status_code r)))
      else case resp_json r of Inl msg \<Rightarrow> Inl (JSONDecodeError msg) | Inr data \<Rightarrow> metadata_of data)"
proof (cases "resp_json r")
  case (Inl msg)
  then show ?thesis using assms
    by (simp add: fetch_metadata_def fetch_metadata_try_def response_json_def)
next
  case (Inr data)
  have "(case metadata_of data of
           Inl (HTTPError msg) \<Rightarrow> Inl (SupadataAPIError (''Failed to fetch metadata: '' @ msg) None)
         | r \<Rightarrow> r) = metadata_of data"
    by (rule except_http_other) (rule metadata_of_not_http)
  with Inr show ?thesis using assms
    by (simp add: fetch_metadata_def fetch_metadata_try_def response_json_def)
qed

lemma fetch_transcript_transport:
  "cl (base_url self @ SUPADATA_TRANSCRIPT_ENDPOINT st) u = Inl (HTTPError msg) \<Longrightarrow>
   fetch_transcript st self u cl = Inl (SupadataAPIError (''Failed to fetch transcript: '' @ msg) None)"
  by (simp add: fetch_transcript_def fetch_transcript_try_def)

lemma fetch_transcript_response:
  assumes "cl (base_url self @ SUPADATA_TRANSCRIPT_ENDPOINT st) u = Inr r"
  shows "fetch_transcript st self u cl =
     (if status_code r = 404 then Inr None
      else if status_code r = 401 then Inl SupadataAuthError
      else if status_code r = 402 then Inl SupadataCreditsExhausted
      else if 400 \<le> status_code r then
        Inl (SupadataAPIError (''Transcript API error: '' @ str_int (status_code r) @ '' - '' @ resp_text r)
               (Some (status_code r)))
      else case resp_json r of Inl msg \<Rightarrow> Inl (JSONDecodeError msg) | Inr data \<Rightarrow> transcript_of data)"
proof (cases "resp_json r")
  case (Inl msg)
  then show ?thesis using assms
    by (simp add: fetch_transcript_def fetch_transcript_try_def response_json_def)
next
  case (Inr data)
  have "(case transcript_of data of
           Inl (HTTPError msg) \<Rightarrow> Inl (SupadataAPIError (''Failed to fetch transcript: '' @ msg) None)
         | r \<Rightarrow> r) = transcript_of data"
    by (rule except_http_other) (rule transcript_of_not_http)
  with Inr show ?thesis using assms
    by (simp add: fetch_transcript_def fetch_transcript_try_def response_json_def)
qed

text \<open>
  Claim C2. \<^verbatim>\<open>_fetch_metadata\<close> maps the outcome of its request as the table of the
  specification says: status 200 gives the parsed body, 401 the auth error, 402 the
  credits error, any other status from 400 on a \<^verbatim>\<open>SupadataAPIError\<close> that carries the
  status code and a message built from the status and the response text, and a transport
  failure a \<^verbatim>\<open>SupadataAPIError\<close> with a message built from the failure and no status
  code. \<^verbatim>\<open>_fetch_transcript\<close> maps the same way, except that 404 gives \<^verbatim>\<open>None\<close>.
\<close>

theorem fetch_status_mapping:
  "(cl (base_url self @ SUPADATA_METADATA_ENDPOINT st) u = Inr r \<longrightarrow>
      (status_code r = 200 \<and> resp_json r = Inr data \<longrightarrow>
         fetch_metadata st self u cl = metadata_of data) \<and>
      (status_code r = 401 \<longrightarrow> fetch_metadata st self u cl = Inl SupadataAuthError) \<and>
      (status_code r = 402 \<longrightarrow> fetch_metadata st self u cl = Inl SupadataCreditsExhausted) \<and>
      (400 \<le> status_code r \<and> status_code r \<noteq> 401 \<and> status_code r \<noteq> 402 \<longrightarrow>
         fetch_metadata st self u cl =
           Inl (SupadataAPIError
                  (''Metadata API error: '' @ str_int (status_code r) @ '' - '' @ resp_text r)
                  (Some (status_code r))))) \<and>
   (cl (base_url self @ SUPADATA_METADATA_ENDPOINT st) u = Inl (HTTPError msg) \<longrightarrow>
      fetch_metadata st self u cl =
        Inl (SupadataAPIError (''Failed to fetch metadata: '' @ msg) None)) \<and>
   (cl (base_url self @ SUPADATA_TRANSCRIPT_ENDPOINT st) u = Inr r' \<longrightarrow>
      (status_code r' = 200 \<and> resp_json r' = Inr data' \<longrightarrow>
         fetch_transcript st self u cl = transcript_of data') \<and>
      (status_code r' = 404 \<longrightarrow> fetch_transcript st self u cl = Inr None) \<and>
      (status_code r' = 401 \<longrightarrow> fetch_transcript st self u cl = Inl SupadataAuthError) \<and>
      (status_code r' = 402 \<longrightarrow> fetch_transcript st self u cl = Inl SupadataCreditsExhausted) \<and>
      (400 \<le> status_code r' \<and> status_code r' \<noteq> 401 \<and> status_code r' \<noteq> 402
         \<and> status_code r' \<noteq> 404 \<longrightarrow>
         fetch_transcript st self u cl =
           Inl (SupadataAPIError
                  (''Transcript API error: '' @ str_int (status_code r') @ '' - '' @ resp_text r')
                  (Some (status_code r'))))) \<and>
   (cl (base_url self @ SUPADATA_TRANSCRIPT_ENDPOINT st) u = Inl (HTTPError msg') \<longrightarrow>
      fetch_transcript st self u cl =
        Inl (SupadataAPIError (''Failed to fetch transcript: '' @ msg') None))"
proof (intro conjI impI)
  assume "cl (base_url self @ SUPADATA_METADATA_ENDPOINT st) u = Inl (HTTPError msg)"
  then show "fetch_metadata st self u cl =
        Inl (SupadataAPIError (''Failed to fetch metadata: '' @ msg) None)"
    by (rule fetch_metadata_transport)
next
  assume "cl (base_url self @ SUPADATA_TRANSCRIPT_ENDPOINT st) u = Inl (HTTPError msg')"
  then show "fetch_transcript st self u cl =
        Inl (SupadataAPIError (''Failed to fetch transcript: '' @ msg') None)"
    by (rule fetch_transcript_transport)
qed (simp_all add: fetch_metadata_response fetch_transcript_response)

section \<open>Successful runs of the orchestrator\<close>

lemma gather_Inr:
  "gather f a b = Inr p \<Longrightarrow> a = Inr (fst p) \<and> b = Inr (snd p)"
  by (cases a; cases b) (auto simp: gather_def)

lemma gather_both [simp]: "gather f (Inr x) (Inr y) = Inr (x, y)"
  by (simp add: gather_def)

lemma run_succeeds:
  assumes "clean_tiktok_url ev video_url = Inr c"
      and "resolve_short_url ev c = Inr u"
      and "extract_video_id ev u = Inr vid"
      and "fetch_metadata st self u (http ev) = Inr m"
      and "fetch_transcript st self u (http ev) = Inr tr"
  shows "fetch_tiktok_data st self ev video_url = Inr (assemble u vid m tr)"
  using assms by (simp add: fetch_tiktok_data_def fetch_tiktok_data_try_def assemble_def)

lemma run_success_cases:
  assumes "fetch_tiktok_data st self ev video_url = Inr d"
  shows "\<exists>c u vid m tr. clean_tiktok_url ev video_url = Inr c \<and> resolve_short_url ev c = Inr u
           \<and> extract_video_id ev u = Inr vid \<and> fetch_metadata st self u (http ev) = Inr m
           \<and> fetch_transcript st self u (http ev) = Inr tr \<and> d = assemble u vid m tr"
proof -
  from assms have t: "fetch_tiktok_data_try st self ev video_url = Inr d"
    by (simp add: fetch_tiktok_data_def split: sum.splits)
  obtain c where c: "clean_tiktok_url ev video_url = Inr c"
    using t by (cases "clean_tiktok_url ev video_url") (simp_all add: fetch_tiktok_data_try_def)
  obtain u where u: "resolve_short_url ev c = Inr u"
    using t c by (cases "resolve_short_url ev c") (simp_all add: fetch_tiktok_data_try_def)
  obtain vid where vid: "extract_video_id ev u = Inr vid"
    using t c u by (cases "extract_video_id ev u") (simp_all add: fetch_tiktok_data_try_def)
  obtain p where p: "gather (first_done ev) (fetch_metadata st self u (http ev))
              (fetch_transcript st self u (http ev)) = Inr p"
    using t c u vid
    by (cases "gather (first_done ev) (fetch_metadata st self u (http ev))
              (fetch_transcript st self u (http ev))") (simp_all add: fetch_tiktok_data_try_def)
  from gather_Inr [OF p] have m: "fetch_metadata st self u (http ev) = Inr (fst p)"
    and tr: "fetch_transcript st self u (http ev) = Inr (snd p)" by simp_all
  from run_succeeds [OF c u vid m tr] assms have "d = assemble u vid (fst p) (snd p)" by simp
  with c u vid m tr show ?thesis by blast
qed

lemma transcript_of_Some:
  "transcript_of data = Inr (Some t) \<Longrightarrow> truthy (tr_text t)"
  unfolding transcript_of_def
  by (cases "get_or_get data ''text'' ''transcript''"; cases "get_or_get data ''language'' ''lang''")
     (auto split: if_splits)

lemma fetch_transcript_Some:
  assumes "fetch_transcript st self u cl = Inr (Some t)"
  shows "truthy (tr_text t)"
proof (cases "cl (base_url self @ SUPADATA_TRANSCRIPT_ENDPOINT st) u")
  case (Inl e)
  with assms show ?thesis
    by (cases e) (simp_all add: fetch_transcript_def fetch_transcript_try_def)
next
  case (Inr r)
  from assms fetch_transcript_response [of cl self st u r, OF Inr]
  have "transcript_of (projr (resp_json r)) = Inr (Some t)"
    by (cases "resp_json r") (auto split: if_splits)
  then show ?thesis by (rule transcript_of_Some)
qed

lemma truthy_nonempty: "truthy v \<Longrightarrow> text_nonempty v"
  by (cases v) (auto simp: text_nonempty_def)

section \<open>The example inputs evaluated\<close>

lemma TikTokScraper_example: "TikTokScraper example_settings = Inr example_scraper"
  by (simp add: TikTokScraper_def example_settings_def default_settings_def example_scraper_def)

lemma ep_meta:
  "base_url example_scraper @ SUPADATA_METADATA_ENDPOINT example_settings
     = ''https://api.supadata.ai/v1/tiktok/metadata''"
  by (simp add: example_scraper_def example_settings_def default_settings_def)

lemma ep_tr:
  "base_url example_scraper @ SUPADATA_TRANSCRIPT_ENDPOINT example_settings
     = ''https://api.supadata.ai/v1/transcript''"
  by (simp add: example_scraper_def example_settings_def default_settings_def)

lemma upstream_meta [simp]: "upstream m t ''https://api.supadata.ai/v1/tiktok/metadata'' u = m"
  by (simp add: upstream_def)

lemma upstream_tr [simp]: "upstream m t ''https://api.supadata.ai/v1/transcript'' u = t"
  by (simp add: upstream_def)

lemma str_int_500: "str_int 500 = ''500''"
  by code_simp

lemma metadata_of_example:
  "metadata_of example_metadata_body =
     Inr \<lparr> meta_title = JStr ''hello'', meta_description = JStr ''hello'', meta_audio_url = JNull,
           meta_author = JNull, meta_likes = JInt 5, meta_views = JNull, meta_shares = JNull,
           meta_comments = JNull \<rparr>"
  by (simp add: example_metadata_body_def metadata_of_def get_or_get_def get_or_nested_def dict_get_def)

lemma transcript_of_example:
  "transcript_of example_transcript_body =
     Inr (Some \<lparr> tr_text = JStr ''hi there'', tr_language = JStr ''en'' \<rparr>)"
  by (simp add: example_transcript_body_def transcript_of_def get_or_get_def dict_get_def)

lemma fetch_metadata_example:
  "fetch_metadata example_settings example_scraper u
      (upstream (respond 200 ''ok'' (Inr example_metadata_body)) t)
   = Inr \<lparr> meta_title = JStr ''hello'', meta_description = JStr ''hello'', meta_audio_url = JNull,
           meta_author = JNull, meta_likes = JInt 5, meta_views = JNull, meta_shares = JNull,
           meta_comments = JNull \<rparr>"
  by (simp add: fetch_metadata_response
          [where r = "\<lparr> status_code = 200, resp_text = ''ok'', resp_json = Inr example_metadata_body \<rparr>"]
        ep_meta respond_def metadata_of_example)

lemma fetch_transcript_example:
  "fetch_transcript example_settings example_scraper u
      (upstream m (respond 200 ''ok'' (Inr example_transcript_body)))
   = Inr (Some \<lparr> tr_text = JStr ''hi there'', tr_language = JStr ''en'' \<rparr>)"
  by (simp add: fetch_transcript_response
          [where r = "\<lparr> status_code = 200, resp_text = ''ok'', resp_json = Inr example_transcript_body \<rparr>"]
        ep_tr respond_def transcript_of_example)

lemma fetch_transcript_example_404:
  "fetch_transcript example_settings example_scraper u
      (upstream m (respond 404 ''not found'' (Inl ''Expecting value''))) = Inr None"
  by (simp add: fetch_transcript_response
          [where r = "\<lparr> status_code = 404, resp_text = ''not found'', resp_json = Inl ''Expecting value'' \<rparr>"]
        ep_tr respond_def)

lemma run_example:
  "fetch_tiktok_data example_settings example_scraper
     (example_env (upstream (respond 200 ''ok'' (Inr example_metadata_body))
                            (respond 200 ''ok'' (Inr example_transcript_body))) f)
     ''https://vt.tiktok.com/ABC123/'' = Inr example_data"
  by (simp add: run_succeeds [where c = "''https://vt.tiktok.com/ABC123/''"
          and u = "''https://www.tiktok.com/@user/video/7000000000000000000''"
          and vid = "''7000000000000000000''"]
        example_env_def fetch_metadata_example fetch_transcript_example assemble_def example_data_def)

lemma run_example_404:
  "fetch_tiktok_data example_settings example_scraper
     (example_env (upstream (respond 200 ''ok'' (Inr example_metadata_body))
                            (respond 404 ''not found'' (Inl ''Expecting value''))) f)
     ''https://vt.tiktok.com/ABC123/'' = Inr example_data_404"
  by (simp add: run_succeeds [where c = "''https://vt.tiktok.com/ABC123/''"
          and u = "''https://www.tiktok.com/@user/video/7000000000000000000''"
          and vid = "''7000000000000000000''"]
        example_env_def fetch_metadata_example fetch_transcript_example_404 assemble_def
        example_data_404_def)

theorem fetch_status_mapping_witness:
  "fetch_metadata example_settings example_scraper ''u''
      (upstream (respond 200 ''ok'' (Inr example_metadata_body))
                (respond 200 ''ok'' (Inr example_transcript_body)))
     = Inr \<lparr> meta_title = JStr ''hello'', meta_description = JStr ''hello'', meta_audio_url = JNull,
             meta_author = JNull, meta_likes = JInt 5, meta_views = JNull, meta_shares = JNull,
             meta_comments = JNull \<rparr>
   \<and> fetch_transcript example_settings example_scraper ''u''
      (upstream (respond 200 ''ok'' (Inr example_metadata_body))
                (respond 200 ''ok'' (Inr example_transcript_body)))
     = Inr (Some \<lparr> tr_text = JStr ''hi there'', tr_language = JStr ''en'' \<rparr>)
   \<and> fetch_metadata example_settings example_scraper ''u''
      (upstream (respond 401 ''denied'' (Inl ''Expecting value''))
                (respond 404 ''not found'' (Inl ''Expecting value'')))
     = Inl SupadataAuthError
   \<and> fetch_transcript example_settings example_scraper ''u''
      (upstream (respond 401 ''denied'' (Inl ''Expecting value''))
                (respond 404 ''not found'' (Inl ''Expecting value'')))
     = Inr None
   \<and> fetch_metadata example_settings example_scraper ''u''
      (upstream (respond 402 ''pay'' (Inl ''Expecting value''))
                (respond 401 ''denied'' (Inl ''Expecting value'')))
     = Inl SupadataCreditsExhausted
   \<and> fetch_transcript example_settings example_scraper ''u''
      (upstream (respond 402 ''pay'' (Inl ''Expecting value''))
                (respond 401 ''denied'' (Inl ''Expecting value'')))
     = Inl SupadataAuthError
   \<and> fetch_metadata example_settings example_scraper ''u''
      (upstream (respond 500 ''boom'' (Inl ''Expecting value''))
                (respond 402 ''pay'' (Inl ''Expecting value'')))
     = Inl (SupadataAPIError ''Metadata API error: 500 - boom'' (Some 500))
   \<and> fetch_transcript example_settings example_scraper ''u''
      (upstream (respond 500 ''boom'' (Inl ''Expecting value''))
                (respond 402 ''pay'' (Inl ''Expecting value'')))
     = Inl SupadataCreditsExhausted
   \<and> fetch_metadata example_settings example_scraper ''u''
      (upstream (Inl (HTTPError ''timed out'')) (respond 500 ''boom'' (Inl ''Expecting value'')))
     = Inl (SupadataAPIError ''Failed to fetch metadata: timed out'' None)
   \<and> fetch_transcript example_settings example_scraper ''u''
      (upstream (Inl (HTTPError ''timed out'')) (respond 500 ''boom'' (Inl ''Expecting value'')))
     = Inl (SupadataAPIError ''Transcript API error: 500 - boom'' (Some 500))
   \<and> fetch_transcript example_settings example_scraper ''u''
      (upstream (respond 401 ''denied'' (Inl ''Expecting value'')) (Inl (HTTPError ''timed out'')))
     = Inl (SupadataAPIError ''Failed to fetch transcript: timed out'' None)"
proof -
  note ev = ep_meta ep_tr respond_def str_int_500 metadata_of_example transcript_of_example
  have a: "fetch_metadata example_settings example_scraper ''u''
      (upstream (respond 200 ''ok'' (Inr example_metadata_body))
                (respond 200 ''ok'' (Inr example_transcript_body)))
     = Inr \<lparr> meta_title = JStr ''hello'', meta_description = JStr ''hello'', meta_audio_url = JNull,
             meta_author = JNull, meta_likes = JInt 5, meta_views = JNull, meta_shares = JNull,
             meta_comments = JNull \<rparr>
   \<and> fetch_transcript example_settings example_scraper ''u''
      (upstream (respond 200 ''ok'' (Inr example_metadata_body))
                (respond 200 ''ok'' (Inr example_transcript_body)))
     = Inr (Some \<lparr> tr_text = JStr ''hi there'', tr_language = JStr ''en'' \<rparr>)"
    using fetch_status_mapping [where st = example_settings and self = example_scraper
      and u = "''u''"
      and cl = "upstream (respond 200 ''ok'' (Inr example_metadata_body))
                         (respond 200 ''ok'' (Inr example_transcript_body))"
      and r = "\<lparr> status_code = 200, resp_text = ''ok'', resp_json = Inr example_metadata_body \<rparr>"
      and data = example_metadata_body
      and r' = "\<lparr> status_code = 200, resp_text = ''ok'', resp_json = Inr example_transcript_body \<rparr>"
      and data' = example_transcript_body]
    by (simp add: ev)
  have b: "fetch_metadata example_settings example_scraper ''u''
      (upstream (respond 401 ''denied'' (Inl ''Expecting value''))
                (respond 404 ''not found'' (Inl ''Expecting value'')))
     = Inl SupadataAuthError
   \<and> fetch_transcript example_settings example_scraper ''u''
      (upstream (respond 401 ''denied'' (Inl ''Expecting value''))
                (respond 404 ''not found'' (Inl ''Expecting value'')))
     = Inr None"
    using fetch_status_mapping [where st = example_settings and self = example_scraper
      and u = "''u''"
      and cl = "upstream (respond 401 ''denied'' (Inl ''Expecting value''))
                         (respond 404 ''not found'' (Inl ''Expecting value''))"
      and r = "\<lparr> status_code = 401, resp_text = ''denied'', resp_json = Inl ''Expecting value'' \<rparr>"
      and r' = "\<lparr> status_code = 404, resp_text = ''not found'', resp_json = Inl ''Expecting value'' \<rparr>"]
    by (simp add: ev)
  have c: "fetch_metadata example_settings example_scraper ''u''
      (upstream (respond 402 ''pay'' (Inl ''Expecting value''))
                (respond 401 ''denied'' (Inl ''Expecting value'')))
     = Inl SupadataCreditsExhausted
   \<and> fetch_transcript example_settings example_scraper ''u''
      (upstream (respond 402 ''pay'' (Inl ''Expecting value''))
                (respond 401 ''denied'' (Inl ''Expecting value'')))
     = Inl SupadataAuthError"
    using fetch_status_mapping [where st = example_settings and self = example_scraper
      and u = "''u''"
      and cl = "upstream (respond 402 ''pay'' (Inl ''Expecting value''))
                         (respond 401 ''denied'' (Inl ''Expecting value''))"
      and r = "\<lparr> status_code = 402, resp_text = ''pay'', resp_json = Inl ''Expecting value'' \<rparr>"
      and r' = "\<lparr> status_code = 401, resp_text = ''denied'', resp_json = Inl ''Expecting value'' \<rparr>"]
    by (simp add: ev)
  have d: "fetch_metadata example_settings example_scraper ''u''
      (upstream (respond 500 ''boom'' (Inl ''Expecting value''))
                (respond 402 ''pay'' (Inl ''Expecting value'')))
     = Inl (SupadataAPIError ''Metadata API error: 500 - boom'' (Some 500))
   \<and> fetch_transcript example_settings example_scraper ''u''
      (upstream (respond 500 ''boom'' (Inl ''Expecting value''))
                (respond 402 ''pay'' (Inl ''Expecting value'')))
     = Inl SupadataCreditsExhausted"
    using fetch_status_mapping [where st = example_settings and self = example_scraper
      and u = "''u''"
      and cl = "upstream (respond 500 ''boom'' (Inl ''Expecting value''))
                         (respond 402 ''pay'' (Inl ''Expecting value''))"
      and r = "\<lparr> status_code = 500, resp_text = ''boom'', resp_json = Inl ''Expecting value'' \<rparr>"
      and r' = "\<lparr> status_code = 402, resp_text = ''pay'', resp_json = Inl ''Expecting value'' \<rparr>"]
    by (simp add: ev)
  have e: "fetch_metadata example_settings example_scraper ''u''
      (upstream (Inl (HTTPError ''timed out'')) (respond 500 ''boom'' (Inl ''Expecting value'')))
     = Inl (SupadataAPIError ''Failed to fetch metadata: timed out'' None)
   \<and> fetch_transcript example_settings example_scraper ''u''
      (upstream (Inl (HTTPError ''timed out'')) (respond 500 ''boom'' (Inl ''Expecting value'')))
     = Inl (SupadataAPIError ''Transcript API error: 500 - boom'' (Some 500))"
    using fetch_status_mapping [where st = example_settings and self = example_scraper
      and u = "''u''"
      and cl = "upstream (Inl (HTTPError ''timed out''))
                         (respond 500 ''boom'' (Inl ''Expecting value''))"
      and msg = "''timed out''"
      and r' = "\<lparr> status_code = 500, resp_text = ''boom'', resp_json = Inl ''Expecting value'' \<rparr>"]
    by (simp add: ev)
  have f: "fetch_transcript example_settings example_scraper ''u''
      (upstream (respond 401 ''denied'' (Inl ''Expecting value'')) (Inl (HTTPError ''timed out'')))
     = Inl (SupadataAPIError ''Failed to fetch transcript: timed out'' None)"
    using fetch_status_mapping [where st = example_settings and self = example_scraper
      and u = "''u''"
      and cl = "upstream (respond 401 ''denied'' (Inl ''Expecting value''))
                         (Inl (HTTPError ''timed out''))"
      and msg' = "''timed out''"]
    by (simp add: ev)
  from a b c d e f show ?thesis by blast
qed

section \<open>A transcript answered with 404\<close>

text \<open>
  Claim C1. When normalisation succeeds, the transcript request is answered with status
  404 and the metadata fetch succeeds, \<^verbatim>\<open>_fetch_transcript\<close> returns \<^verbatim>\<open>None\<close> instead
  of raising, and \<^verbatim>\<open>fetch_tiktok_data\<close> returns a record whose \<^verbatim>\<open>transcript\<close> is null
  and whose \<^verbatim>\<open>has_transcript\<close> is false.
\<close>

theorem transcript_404_succeeds:
  assumes "clean_tiktok_url ev video_url = Inr c"
      and "resolve_short_url ev c = Inr u"
      and "extract_video_id ev u = Inr vid"
      and "http ev (base_url self @ SUPADATA_TRANSCRIPT_ENDPOINT st) u = Inr r"
      and "status_code r = 404"
      and "fetch_metadata st self u (http ev) = Inr m"
  shows "fetch_transcript st self u (http ev) = Inr None
       \<and> (\<exists>d. fetch_tiktok_data st self ev video_url = Inr d
              \<and> transcript d = JNull \<and> has_transcript d = False)"
proof -
  have tr: "fetch_transcript st self u (http ev) = Inr None"
    using fetch_transcript_response [of "http ev" self st u r, OF assms(4)] assms(5) by simp
  from run_succeeds [OF assms(1-3) assms(6) tr]
  show ?thesis using tr by (simp add: assemble_def)
qed

theorem transcript_404_succeeds_witness:
  "fetch_transcript example_settings example_scraper
       ''https://www.tiktok.com/@user/video/7000000000000000000''
       (upstream (respond 200 ''ok'' (Inr example_metadata_body))
                 (respond 404 ''not found'' (Inl ''Expecting value'')))
     = Inr None
   \<and> (\<exists>d. fetch_tiktok_data example_settings example_scraper
         (example_env (upstream (respond 200 ''ok'' (Inr example_metadata_body))
                                (respond 404 ''not found'' (Inl ''Expecting value''))) MetadataTask)
         ''https://vt.tiktok.com/ABC123/'' = Inr d
       \<and> transcript d = JNull \<and> has_transcript d = False)"
  using transcript_404_succeeds [where st = example_settings and self = example_scraper
      and ev = "example_env (upstream (respond 200 ''ok'' (Inr example_metadata_body))
                                (respond 404 ''not found'' (Inl ''Expecting value''))) MetadataTask"
      and video_url = "''https://vt.tiktok.com/ABC123/''"
      and c = "''https://vt.tiktok.com/ABC123/''"
      and u = "''https://www.tiktok.com/@user/video/7000000000000000000''"
      and vid = "''7000000000000000000''"
      and r = "\<lparr> status_code = 404, resp_text = ''not found'', resp_json = Inl ''Expecting value'' \<rparr>"
      and m = "\<lparr> meta_title = JStr ''hello'', meta_description = JStr ''hello'',
                 meta_audio_url = JNull, meta_author = JNull, meta_likes = JInt 5,
                 meta_views = JNull, meta_shares = JNull, meta_comments = JNull \<rparr>"]
  by (simp add: example_env_def ep_tr respond_def [symmetric] fetch_metadata_example)

section \<open>The transcript fields of a returned record\<close>

text \<open>
  Claim C6. In every successful run of \<^verbatim>\<open>fetch_tiktok_data\<close>, \<^verbatim>\<open>has_transcript\<close> of
  the returned record equals "the transcript that \<^verbatim>\<open>_fetch_transcript\<close> returned for the
  resolved URL is present and its text is non-empty", and equals "the record's
  \<^verbatim>\<open>transcript\<close> is neither null nor the empty string"; so an absent transcript gives
  false, and no returned transcript has an empty text.
\<close>

theorem has_transcript_derived:
  assumes "fetch_tiktok_data st self ev video_url = Inr d"
  shows "\<exists>tr. fetch_transcript st self (url d) (http ev) = Inr tr
            \<and> has_transcript d = spec_has_transcript tr
            \<and> has_transcript d = text_nonempty (transcript d)"
proof -
  from run_success_cases [OF assms] obtain c u vid m tr where
    tr: "fetch_transcript st self u (http ev) = Inr tr" and d: "d = assemble u vid m tr"
    by blast
  have "has_transcript d = spec_has_transcript tr
      \<and> has_transcript d = text_nonempty (transcript d)"
  proof (cases tr)
    case None
    then show ?thesis by (simp add: d assemble_def spec_has_transcript_def text_nonempty_def)
  next
    case (Some t)
    with tr have "truthy (tr_text t)" by (simp add: fetch_transcript_Some)
    then have "text_nonempty (tr_text t)" by (rule truthy_nonempty)
    with Some show ?thesis
      by (auto simp add: d assemble_def spec_has_transcript_def text_nonempty_def)
  qed
  moreover have "url d = u" by (simp add: d assemble_def)
  ultimately show ?thesis using tr by blast
qed

theorem has_transcript_derived_witness:
  "fetch_tiktok_data example_settings example_scraper
     (example_env (upstream (respond 200 ''ok'' (Inr example_metadata_body))
                            (respond 200 ''ok'' (Inr example_transcript_body))) MetadataTask)
     ''https://vt.tiktok.com/ABC123/'' = Inr example_data
   \<and> has_transcript example_data
       = spec_has_transcript (Some \<lparr> tr_text = JStr ''hi there'', tr_language = JStr ''en'' \<rparr>)
   \<and> fetch_tiktok_data example_settings example_scraper
     (example_env (upstream (respond 200 ''ok'' (Inr example_metadata_body))
                            (respond 404 ''not found'' (Inl ''Expecting value''))) MetadataTask)
     ''https://vt.tiktok.com/ABC123/'' = Inr example_data_404
   \<and> has_transcript example_data_404 = spec_has_transcript None
   \<and> has_transcript example_data = text_nonempty (transcript example_data)
   \<and> has_transcript example_data_404 = text_nonempty (transcript example_data_404)"
proof -
  have u: "url example_data = ''https://www.tiktok.com/@user/video/7000000000000000000''"
    and u': "url example_data_404 = ''https://www.tiktok.com/@user/video/7000000000000000000''"
    by (simp_all add: example_data_def example_data_404_def)
  have a: "has_transcript example_data
       = spec_has_transcript (Some \<lparr> tr_text = JStr ''hi there'', tr_language = JStr ''en'' \<rparr>)"
    and a': "has_transcript example_data = text_nonempty (transcript example_data)"
    using has_transcript_derived [OF run_example [of MetadataTask]]
    by (auto simp add: u example_env_def fetch_transcript_example)
  have b: "has_transcript example_data_404 = spec_has_transcript None"
    and b': "has_transcript example_data_404 = text_nonempty (transcript example_data_404)"
    using has_transcript_derived [OF run_example_404 [of MetadataTask]]
    by (auto simp add: u' example_env_def fetch_transcript_example_404)
  from a a' b b' show ?thesis by (simp add: run_example run_example_404)
qed

text \<open>
  Claim C10. In every record that \<^verbatim>\<open>fetch_tiktok_data\<close> returns, \<^verbatim>\<open>has_transcript\<close> is
  true exactly when \<^verbatim>\<open>transcript\<close> is not null, and \<^verbatim>\<open>transcript_language\<close> is null
  whenever \<^verbatim>\<open>transcript\<close> is null.
\<close>

theorem transcript_fields_consistent:
  assumes "fetch_tiktok_data st self ev video_url = Inr d"
  shows "(has_transcript d \<longleftrightarrow> transcript d \<noteq> JNull)
       \<and> (transcript d = JNull \<longrightarrow> transcript_language d = JNull)"
proof -
  from run_success_cases [OF assms] obtain c u vid m tr where
    tr: "fetch_transcript st self u (http ev) = Inr tr" and d: "d = assemble u vid m tr"
    by blast
  show ?thesis
  proof (cases tr)
    case None
    then show ?thesis by (simp add: d assemble_def)
  next
    case (Some t)
    with tr have "truthy (tr_text t)" by (simp add: fetch_transcript_Some)
    then have "tr_text t \<noteq> JNull" by auto
    with Some show ?thesis by (simp add: d assemble_def)
  qed
qed

theorem transcript_fields_consistent_witness:
  "fetch_tiktok_data example_settings example_scraper
     (example_env (upstream (respond 200 ''ok'' (Inr example_metadata_body))
                            (respond 200 ''ok'' (Inr example_transcript_body))) TranscriptTask)
     ''https://vt.tiktok.com/ABC123/'' = Inr example_data
   \<and> has_transcript example_data = (transcript example_data \<noteq> JNull)
   \<and> fetch_tiktok_data example_settings example_scraper
     (example_env (upstream (respond 200 ''ok'' (Inr example_metadata_body))
                            (respond 404 ''not found'' (Inl ''Expecting value''))) TranscriptTask)
     ''https://vt.tiktok.com/ABC123/'' = Inr example_data_404
   \<and> has_transcript example_data_404 = (transcript example_data_404 \<noteq> JNull)
   \<and> transcript example_data_404 = JNull
   \<and> transcript_language example_data_404 = JNull"
proof -
  have a: "has_transcript example_data = (transcript example_data \<noteq> JNull)"
    using transcript_fields_consistent [OF run_example [of TranscriptTask]] by simp
  have t: "transcript example_data_404 = JNull"
    by (simp add: example_data_404_def)
  have b: "has_transcript example_data_404 = (transcript example_data_404 \<noteq> JNull)"
    and c: "transcript_language example_data_404 = JNull"
    using transcript_fields_consistent [OF run_example_404 [of TranscriptTask]] t by simp_all
  from a b c t show ?thesis by (simp add: run_example run_example_404)
qed

section \<open>A response without transcript text\<close>

lemma get_or_get_dict:
  "get_or_get (JObj kv) k1 k2 = Inr (first_truthy (dict_get kv k1) (dict_get kv k2))"
  by (simp add: get_or_get_def first_truthy_def)

lemma get_or_nested_dict:
  assumes "fallback_ok kv k c"
  shows "get_or_nested (JObj kv) k c a = Inr (first_truthy (dict_get kv k) (nested_get kv c a))"
proof (cases "truthy (dict_get kv k)")
  case True
  then show ?thesis by (simp add: get_or_nested_def first_truthy_def)
next
  case False
  with assms have "map_of kv c = None \<or> (\<exists>sub. map_of kv c = Some (JObj sub))"
    by (auto simp: fallback_ok_def split: option.splits json.splits)
  then show ?thesis using False
    by (auto simp: get_or_nested_def first_truthy_def nested_get_def dict_get_def)
qed

lemma transcript_of_falsy:
  assumes "\<not> truthy (dict_get kv ''text'')" and "\<not> truthy (dict_get kv ''transcript'')"
  shows "transcript_of (JObj kv) = Inr None"
  using assms by (simp add: transcript_of_def get_or_get_dict first_truthy_def)

lemma fetch_transcript_example_empty:
  "fetch_transcript example_settings example_scraper u
      (upstream m (respond 200 ''ok'' (Inr example_empty_transcript_body))) = Inr None"
  by (simp add: fetch_transcript_response
          [where r = "\<lparr> status_code = 200, resp_text = ''ok'', resp_json = Inr example_empty_transcript_body \<rparr>"]
        ep_tr respond_def example_empty_transcript_body_def transcript_of_falsy dict_get_def)

lemma run_raises_transcript:
  assumes "clean_tiktok_url ev video_url = Inr c"
      and "resolve_short_url ev c = Inr u"
      and "extract_video_id ev u = Inr vid"
      and "fetch_metadata st self u (http ev) = Inr m"
      and "fetch_transcript st self u (http ev) = Inl e"
  shows "fetch_tiktok_data st self ev video_url = Inl (except_clauses e)"
  using assms by (simp add: fetch_tiktok_data_def fetch_tiktok_data_try_def gather_def)

lemma transcript_of_array:
  "transcript_of (JArr [])
     = Inl (AttributeError ([CHR 0x27] @ ''list'' @ [CHR 0x27] @ '' object has no attribute ''
                            @ [CHR 0x27] @ ''get'' @ [CHR 0x27]))"
  by (simp add: transcript_of_def get_or_get_def no_attribute_get_def)

lemma fetch_transcript_example_array:
  "fetch_transcript example_settings example_scraper u
      (upstream m (respond 200 ''[]'' (Inr (JArr []))))
   = Inl (AttributeError ([CHR 0x27] @ ''list'' @ [CHR 0x27] @ '' object has no attribute ''
                            @ [CHR 0x27] @ ''get'' @ [CHR 0x27]))"
  by (simp add: fetch_transcript_response
          [where r = "\<lparr> status_code = 200, resp_text = ''[]'', resp_json = Inr (JArr []) \<rparr>"]
        ep_tr respond_def transcript_of_array)

text \<open>
  Claim C9 as stated fails when the transcript request is answered with status 200 and
  the JSON body \<^verbatim>\<open>[]\<close>: the body holds no value under \<^verbatim>\<open>text\<close> or
  \<^verbatim>\<open>transcript\<close>, but a list has no \<^verbatim>\<open>get\<close>, so \<^verbatim>\<open>data.get("text")\<close> raises
  \<^verbatim>\<open>AttributeError\<close>; \<^verbatim>\<open>_fetch_transcript\<close> raises it instead of returning
  \<^verbatim>\<open>None\<close>, and \<^verbatim>\<open>fetch_tiktok_data\<close> fails with a \<^verbatim>\<open>SupadataAPIError\<close> although
  the metadata fetch succeeds.
\<close>

theorem non_object_body_counterexample:
  "fetch_metadata example_settings example_scraper
       ''https://www.tiktok.com/@user/video/7000000000000000000''
       (upstream (respond 200 ''ok'' (Inr example_metadata_body))
                 (respond 200 ''[]'' (Inr (JArr []))))
     = Inr \<lparr> meta_title = JStr ''hello'', meta_description = JStr ''hello'', meta_audio_url = JNull,
             meta_author = JNull, meta_likes = JInt 5, meta_views = JNull, meta_shares = JNull,
             meta_comments = JNull \<rparr>
   \<and> fetch_transcript example_settings example_scraper
       ''https://www.tiktok.com/@user/video/7000000000000000000''
       (upstream (respond 200 ''ok'' (Inr example_metadata_body))
                 (respond 200 ''[]'' (Inr (JArr []))))
     = Inl (AttributeError ([CHR 0x27] @ ''list'' @ [CHR 0x27] @ '' object has no attribute ''
                            @ [CHR 0x27] @ ''get'' @ [CHR 0x27]))
   \<and> fetch_tiktok_data example_settings example_scraper
       (example_env (upstream (respond 200 ''ok'' (Inr example_metadata_body))
                              (respond 200 ''[]'' (Inr (JArr [])))) MetadataTask)
       ''https://vt.tiktok.com/ABC123/''
     = Inl (SupadataAPIError
              (''Failed to fetch TikTok data: '' @ [CHR 0x27] @ ''list'' @ [CHR 0x27]
                 @ '' object has no attribute '' @ [CHR 0x27] @ ''get'' @ [CHR 0x27]) None)"
proof -
  have "fetch_tiktok_data example_settings example_scraper
       (example_env (upstream (respond 200 ''ok'' (Inr example_metadata_body))
                              (respond 200 ''[]'' (Inr (JArr [])))) MetadataTask)
       ''https://vt.tiktok.com/ABC123/''
     = Inl (except_clauses (AttributeError ([CHR 0x27] @ ''list'' @ [CHR 0x27]
              @ '' object has no attribute '' @ [CHR 0x27] @ ''get'' @ [CHR 0x27])))"
    by (rule run_raises_transcript [where c = "''https://vt.tiktok.com/ABC123/''"
          and u = "''https://www.tiktok.com/@user/video/7000000000000000000''"
          and vid = "''7000000000000000000''"])
       (simp_all add: example_env_def fetch_metadata_example fetch_transcript_example_array)
  then show ?thesis
    by (simp add: fetch_metadata_example fetch_transcript_example_array)
qed

text \<open>
  Claim C9, amended. When the transcript request is answered with a 2xx status and a
  JSON body that is an object holding no truthy value under \<^verbatim>\<open>text\<close> or
  \<^verbatim>\<open>transcript\<close> (the key is absent, or its value is null, empty, zero or false),
  \<^verbatim>\<open>_fetch_transcript\<close> returns \<^verbatim>\<open>None\<close>, as for a 404; so, when normalisation and
  the metadata fetch succeed, \<^verbatim>\<open>fetch_tiktok_data\<close> returns a record with
  \<^verbatim>\<open>transcript\<close> null and \<^verbatim>\<open>has_transcript\<close> false.
\<close>

theorem empty_transcript_is_absent:
  assumes "http ev (base_url self @ SUPADATA_TRANSCRIPT_ENDPOINT st) u = Inr r"
      and "200 \<le> status_code r" and "status_code r < 300"
      and "resp_json r = Inr (JObj kv)"
      and "\<not> truthy (dict_get kv ''text'')"
      and "\<not> truthy (dict_get kv ''transcript'')"
  shows "fetch_transcript st self u (http ev) = Inr None
       \<and> (\<forall>c vid m. clean_tiktok_url ev video_url = Inr c \<and> resolve_short_url ev c = Inr u
              \<and> extract_video_id ev u = Inr vid \<and> fetch_metadata st self u (http ev) = Inr m
            \<longrightarrow> (\<exists>d. fetch_tiktok_data st self ev video_url = Inr d
                    \<and> transcript d = JNull \<and> has_transcript d = False))"
proof -
  have tr: "fetch_transcript st self u (http ev) = Inr None"
    using fetch_transcript_response [of "http ev" self st u r, OF assms(1)] assms(2-4)
      transcript_of_falsy [OF assms(5,6)]
    by simp
  have "\<exists>d. fetch_tiktok_data st self ev video_url = Inr d
            \<and> transcript d = JNull \<and> has_transcript d = False"
    if "clean_tiktok_url ev video_url = Inr c" "resolve_short_url ev c = Inr u"
       "extract_video_id ev u = Inr vid" "fetch_metadata st self u (http ev) = Inr m"
    for c vid m
    using run_succeeds [OF that tr] by (simp add: assemble_def)
  with tr show ?thesis by blast
qed

theorem empty_transcript_is_absent_witness:
  "fetch_transcript example_settings example_scraper
       ''https://www.tiktok.com/@user/video/7000000000000000000''
       (upstream (respond 200 ''ok'' (Inr example_metadata_body))
                 (respond 200 ''ok'' (Inr example_empty_transcript_body)))
     = Inr None
   \<and> (\<exists>d. fetch_tiktok_data example_settings example_scraper
         (example_env (upstream (respond 200 ''ok'' (Inr example_metadata_body))
                                (respond 200 ''ok'' (Inr example_empty_transcript_body))) MetadataTask)
         ''https://vt.tiktok.com/ABC123/'' = Inr d
       \<and> transcript d = JNull \<and> has_transcript d = False)"
proof -
  let ?cl = "upstream (respond 200 ''ok'' (Inr example_metadata_body))
                      (respond 200 ''ok'' (Inr example_empty_transcript_body))"
  let ?u = "''https://www.tiktok.com/@user/video/7000000000000000000''"
  let ?r = "\<lparr> status_code = 200, resp_text = ''ok'', resp_json = Inr example_empty_transcript_body \<rparr>"
  have h1: "http (example_env ?cl MetadataTask)
              (base_url example_scraper @ SUPADATA_TRANSCRIPT_ENDPOINT example_settings) ?u = Inr ?r"
    by (simp add: example_env_def ep_tr respond_def)
  have h4: "resp_json ?r = Inr (JObj [(''text'', JStr []), (''lang'', JStr ''en'')])"
    by (simp add: example_empty_transcript_body_def)
  have h5: "\<not> truthy (dict_get [(''text'', JStr []), (''lang'', JStr ''en'')] ''text'')"
    and h6: "\<not> truthy (dict_get [(''text'', JStr []), (''lang'', JStr ''en'')] ''transcript'')"
    by (simp_all add: dict_get_def)
  have n: "clean_tiktok_url (example_env ?cl MetadataTask) ''https://vt.tiktok.com/ABC123/''
             = Inr ''https://vt.tiktok.com/ABC123/''"
     "resolve_short_url (example_env ?cl MetadataTask) ''https://vt.tiktok.com/ABC123/'' = Inr ?u"
     "extract_video_id (example_env ?cl MetadataTask) ?u = Inr ''7000000000000000000''"
    by (simp_all add: example_env_def)
  have m: "fetch_metadata example_settings example_scraper ?u (http (example_env ?cl MetadataTask))
     = Inr \<lparr> meta_title = JStr ''hello'', meta_description = JStr ''hello'', meta_audio_url = JNull,
           meta_author = JNull, meta_likes = JInt 5, meta_views = JNull, meta_shares = JNull,
           meta_comments = JNull \<rparr>"
    by (simp add: example_env_def fetch_metadata_example)
  from empty_transcript_is_absent [where video_url = "''https://vt.tiktok.com/ABC123/''", OF h1 _ _ h4 h5 h6]
  have "fetch_transcript example_settings example_scraper ?u (http (example_env ?cl MetadataTask)) = Inr None
       \<and> (\<forall>c vid m. clean_tiktok_url (example_env ?cl MetadataTask) ''https://vt.tiktok.com/ABC123/'' = Inr c
              \<and> resolve_short_url (example_env ?cl MetadataTask) c = Inr ?u
              \<and> extract_video_id (example_env ?cl MetadataTask) ?u = Inr vid
              \<and> fetch_metadata example_settings example_scraper ?u (http (example_env ?cl MetadataTask)) = Inr m
            \<longrightarrow> (\<exists>d. fetch_tiktok_data example_settings example_scraper (example_env ?cl MetadataTask)
                         ''https://vt.tiktok.com/ABC123/'' = Inr d
                    \<and> transcript d = JNull \<and> has_transcript d = False))"
    by simp
  with n m have "fetch_transcript example_settings example_scraper ?u (http (example_env ?cl MetadataTask)) = Inr None
     \<and> (\<exists>d. fetch_tiktok_data example_settings example_scraper (example_env ?cl MetadataTask)
                         ''https://vt.tiktok.com/ABC123/'' = Inr d
                    \<and> transcript d = JNull \<and> has_transcript d = False)"
    by blast
  then show ?thesis by (simp add: example_env_def)
qed

section \<open>Errors surfaced by the orchestrator\<close>

lemma gather_Inl: "gather f a b = Inl e \<Longrightarrow> a = Inl e \<or> b = Inl e"
  by (cases a; cases b) (auto simp: gather_def split: if_splits)

lemma run_fails_cases:
  assumes "fetch_tiktok_data st self ev video_url = Inl err"
  shows "\<exists>e. fetch_tiktok_data_try st self ev video_url = Inl e \<and> err = except_clauses e
            \<and> raised_at_boundary st self ev video_url e"
proof -
  from assms obtain e where t: "fetch_tiktok_data_try st self ev video_url = Inl e"
    and err: "err = except_clauses e"
    by (auto simp: fetch_tiktok_data_def split: sum.splits)
  have "raised_at_boundary st self ev video_url e"
  proof (cases "clean_tiktok_url ev video_url")
    case (Inl e1)
    with t show ?thesis by (simp add: fetch_tiktok_data_try_def raised_at_boundary_def)
  next
    case c: (Inr c)
    show ?thesis
    proof (cases "resolve_short_url ev c")
      case (Inl e2)
      with t c show ?thesis by (simp add: fetch_tiktok_data_try_def raised_at_boundary_def)
    next
      case u: (Inr u)
      show ?thesis
      proof (cases "extract_video_id ev u")
        case (Inl e3)
        with t c u show ?thesis by (simp add: fetch_tiktok_data_try_def raised_at_boundary_def)
      next
        case vid: (Inr vid)
        from t c u vid have "gather (first_done ev) (fetch_metadata st self u (http ev))
              (fetch_transcript st self u (http ev)) = Inl e"
          by (cases "gather (first_done ev) (fetch_metadata st self u (http ev))
              (fetch_transcript st self u (http ev))")
             (simp_all add: fetch_tiktok_data_try_def split: prod.splits)
        from gather_Inl [OF this] c u vid show ?thesis
          by (simp add: raised_at_boundary_def)
      qed
    qed
  qed
  with t err show ?thesis by blast
qed

lemma fetch_metadata_example_500:
  "fetch_metadata example_settings example_scraper u
      (upstream (respond 500 ''boom'' (Inl ''Expecting value'')) t)
   = Inl (SupadataAPIError ''Metadata API error: 500 - boom'' (Some 500))"
  by (simp add: fetch_metadata_response
          [where r = "\<lparr> status_code = 500, resp_text = ''boom'', resp_json = Inl ''Expecting value'' \<rparr>"]
        ep_meta respond_def str_int_500)

lemma run_raises:
  assumes "clean_tiktok_url ev video_url = Inr c"
      and "resolve_short_url ev c = Inr u"
      and "extract_video_id ev u = Inr vid"
      and "fetch_metadata st self u (http ev) = Inl e"
      and "fetch_transcript st self u (http ev) = Inr tr"
  shows "fetch_tiktok_data st self ev video_url = Inl (except_clauses e)"
  using assms by (simp add: fetch_tiktok_data_def fetch_tiktok_data_try_def gather_def)

lemma run_example_500:
  "fetch_tiktok_data example_settings example_scraper
     (example_env (upstream (respond 500 ''boom'' (Inl ''Expecting value''))
                            (respond 404 ''not found'' (Inl ''Expecting value''))) f)
     ''https://vt.tiktok.com/ABC123/''
   = Inl (SupadataAPIError ''Failed to fetch TikTok data: Metadata API error: 500 - boom'' None)"
  by (simp add: run_raises [where c = "''https://vt.tiktok.com/ABC123/''"
          and u = "''https://www.tiktok.com/@user/video/7000000000000000000''"
          and vid = "''7000000000000000000''"
          and e = "SupadataAPIError ''Metadata API error: 500 - boom'' (Some 500)"
          and tr = None]
        example_env_def fetch_metadata_example_500 fetch_transcript_example_404)

text \<open>
  Claim C3 as the specification states it fails when the metadata request is answered
  with status 500: \<^verbatim>\<open>_fetch_metadata\<close> raises a \<^verbatim>\<open>SupadataAPIError\<close> with status code
  500, and \<^verbatim>\<open>fetch_tiktok_data\<close> surfaces a \<^verbatim>\<open>SupadataAPIError\<close> with another message
  and no status code.
\<close>

theorem generic_error_rewrapped_counterexample:
  "fetch_metadata example_settings example_scraper
       ''https://www.tiktok.com/@user/video/7000000000000000000''
       (upstream (respond 500 ''boom'' (Inl ''Expecting value''))
                 (respond 404 ''not found'' (Inl ''Expecting value'')))
     = Inl (SupadataAPIError ''Metadata API error: 500 - boom'' (Some 500))
   \<and> fetch_tiktok_data example_settings example_scraper
       (example_env (upstream (respond 500 ''boom'' (Inl ''Expecting value''))
                              (respond 404 ''not found'' (Inl ''Expecting value''))) MetadataTask)
       ''https://vt.tiktok.com/ABC123/''
     = Inl (SupadataAPIError ''Failed to fetch TikTok data: Metadata API error: 500 - boom'' None)
   \<and> SupadataAPIError ''Failed to fetch TikTok data: Metadata API error: 500 - boom'' None
     \<noteq> SupadataAPIError ''Metadata API error: 500 - boom'' (Some 500)"
  by (simp add: fetch_metadata_example_500 run_example_500)

text \<open>
  Claim C3, amended. Every error that \<^verbatim>\<open>fetch_tiktok_data\<close> surfaces comes from an
  exception raised by a normalisation step or by one of the two fetchers, and is one of
  the four tagged variants. An auth error and a credits error are surfaced unchanged; a
  \<^verbatim>\<open>SupadataAPIError\<close> is surfaced as a \<^verbatim>\<open>SupadataAPIError\<close> whose message is the
  original one after the prefix \<^verbatim>\<open>Failed to fetch TikTok data: \<close> and which has no
  status code; a \<^verbatim>\<open>ValueError\<close> is surfaced as an \<^verbatim>\<open>InvalidTikTokURLError\<close> with the
  same message.
\<close>

theorem errors_surfaced:
  assumes "fetch_tiktok_data st self ev video_url = Inl err"
  shows "\<exists>e. raised_at_boundary st self ev video_url e
     \<and> (e = SupadataAuthError \<longrightarrow> err = SupadataAuthError)
     \<and> (e = SupadataCreditsExhausted \<longrightarrow> err = SupadataCreditsExhausted)
     \<and> (\<forall>msg sc. e = SupadataAPIError msg sc \<longrightarrow>
           err = SupadataAPIError (''Failed to fetch TikTok data: '' @ msg) None)
     \<and> (\<forall>msg. e = ValueError msg \<longrightarrow> err = InvalidTikTokURLError msg)
     \<and> (err = SupadataAuthError \<or> err = SupadataCreditsExhausted
          \<or> (\<exists>msg. err = SupadataAPIError msg None) \<or> (\<exists>msg. err = InvalidTikTokURLError msg))"
proof -
  from run_fails_cases [OF assms] obtain e where
    err: "err = except_clauses e" and r: "raised_at_boundary st self ev video_url e"
    by blast
  have "(e = SupadataAuthError \<longrightarrow> err = SupadataAuthError)
     \<and> (e = SupadataCreditsExhausted \<longrightarrow> err = SupadataCreditsExhausted)
     \<and> (\<forall>msg sc. e = SupadataAPIError msg sc \<longrightarrow>
           err = SupadataAPIError (''Failed to fetch TikTok data: '' @ msg) None)
     \<and> (\<forall>msg. e = ValueError msg \<longrightarrow> err = InvalidTikTokURLError msg)
     \<and> (err = SupadataAuthError \<or> err = SupadataCreditsExhausted
          \<or> (\<exists>msg. err = SupadataAPIError msg None) \<or> (\<exists>msg. err = InvalidTikTokURLError msg))"
    unfolding err by (cases e) simp_all
  with r show ?thesis by blast
qed

theorem errors_surfaced_witness:
  "fetch_tiktok_data example_settings example_scraper
       (example_env (upstream (respond 500 ''boom'' (Inl ''Expecting value''))
                              (respond 404 ''not found'' (Inl ''Expecting value''))) MetadataTask)
       ''https://vt.tiktok.com/ABC123/''
     = Inl (SupadataAPIError ''Failed to fetch TikTok data: Metadata API error: 500 - boom'' None)
   \<and> raised_at_boundary example_settings example_scraper
       (example_env (upstream (respond 500 ''boom'' (Inl ''Expecting value''))
                              (respond 404 ''not found'' (Inl ''Expecting value''))) MetadataTask)
       ''https://vt.tiktok.com/ABC123/''
       (SupadataAPIError ''Metadata API error: 500 - boom'' (Some 500))"
proof -
  let ?ev = "example_env (upstream (respond 500 ''boom'' (Inl ''Expecting value''))
                              (respond 404 ''not found'' (Inl ''Expecting value''))) MetadataTask"
  have only: "raised_at_boundary example_settings example_scraper ?ev
                ''https://vt.tiktok.com/ABC123/'' e
              \<longleftrightarrow> e = SupadataAPIError ''Metadata API error: 500 - boom'' (Some 500)" for e
    by (auto simp add: raised_at_boundary_def example_env_def fetch_metadata_example_500
          fetch_transcript_example_404)
  from errors_surfaced [OF run_example_500 [of MetadataTask]]
  obtain e where "raised_at_boundary example_settings example_scraper ?ev
                ''https://vt.tiktok.com/ABC123/'' e"
    by blast
  with only show ?thesis by (simp add: run_example_500)
qed

section \<open>The response mapper\<close>

text \<open>
  The construction of the metadata returns for exactly the payloads in which every
  nested fallback that is reached finds its container absent or an object.
\<close>

lemma get_or_nested_dict_raises:
  assumes "\<not> fallback_ok kv k c"
  shows "\<exists>v. get_or_nested (JObj kv) k c a = Inl (no_attribute_get v)"
proof -
  from assms have f: "\<not> truthy (dict_get kv k)"
    and "\<exists>v. map_of kv c = Some v \<and> (\<forall>sub. v \<noteq> JObj sub)"
    by (auto simp: fallback_ok_def split: option.splits json.splits)
  then obtain v where v: "map_of kv c = Some v" and n: "\<And>sub. v \<noteq> JObj sub" by blast
  from n have "py_get v a = Inl (no_attribute_get v)" by (cases v) auto
  with f v show ?thesis by (auto simp: get_or_nested_def)
qed

lemma metadata_of_returns_iff:
  "(\<exists>m. metadata_of (JObj kv) = Inr m) \<longleftrightarrow>
     fallback_ok kv ''audio_url'' ''music'' \<and> fallback_ok kv ''author'' ''author''
     \<and> fallback_ok kv ''likes'' ''stats'' \<and> fallback_ok kv ''views'' ''stats''
     \<and> fallback_ok kv ''shares'' ''stats'' \<and> fallback_ok kv ''comments'' ''stats''"
  (is "?L \<longleftrightarrow> ?R")
proof
  assume ?R
  then show ?L
    by (simp add: metadata_of_def get_or_get_dict get_or_nested_dict)
next
  assume l: ?L
  show ?R
  proof (rule ccontr)
    assume "\<not> ?R"
    then consider "\<not> fallback_ok kv ''audio_url'' ''music''"
      | "fallback_ok kv ''audio_url'' ''music''" "\<not> fallback_ok kv ''author'' ''author''"
      | "fallback_ok kv ''audio_url'' ''music''" "fallback_ok kv ''author'' ''author''"
        "\<not> fallback_ok kv ''likes'' ''stats''"
      | "fallback_ok kv ''audio_url'' ''music''" "fallback_ok kv ''author'' ''author''"
        "fallback_ok kv ''likes'' ''stats''" "\<not> fallback_ok kv ''views'' ''stats''"
      | "fallback_ok kv ''audio_url'' ''music''" "fallback_ok kv ''author'' ''author''"
        "fallback_ok kv ''likes'' ''stats''" "fallback_ok kv ''views'' ''stats''"
        "\<not> fallback_ok kv ''shares'' ''stats''"
      | "fallback_ok kv ''audio_url'' ''music''" "fallback_ok kv ''author'' ''author''"
        "fallback_ok kv ''likes'' ''stats''" "fallback_ok kv ''views'' ''stats''"
        "fallback_ok kv ''shares'' ''stats''" "\<not> fallback_ok kv ''comments'' ''stats''"
      by blast
    then have "\<exists>e. metadata_of (JObj kv) = Inl e"
    proof cases
      case 1
      from get_or_nested_dict_raises [OF 1, of "''playUrl''"] show ?thesis
        by (auto simp: metadata_of_def get_or_get_dict)
    next
      case 2
      from get_or_nested_dict_raises [OF 2(2), of "''uniqueId''"] 2(1) show ?thesis
        by (auto simp: metadata_of_def get_or_get_dict get_or_nested_dict)
    next
      case 3
      from get_or_nested_dict_raises [OF 3(3), of "''diggCount''"] 3(1,2) show ?thesis
        by (auto simp: metadata_of_def get_or_get_dict get_or_nested_dict)
    next
      case 4
      from get_or_nested_dict_raises [OF 4(4), of "''playCount''"] 4(1-3) show ?thesis
        by (auto simp: metadata_of_def get_or_get_dict get_or_nested_dict)
    next
      case 5
      from get_or_nested_dict_raises [OF 5(5), of "''shareCount''"] 5(1-4) show ?thesis
        by (auto simp: metadata_of_def get_or_get_dict get_or_nested_dict)
    next
      case 6
      from get_or_nested_dict_raises [OF 6(6), of "''commentCount''"] 6(1-5) show ?thesis
        by (auto simp: metadata_of_def get_or_get_dict get_or_nested_dict)
    qed
    with l show False by auto
  qed
qed

lemma metadata_of_null_music:
  "metadata_of example_null_music_body
     = Inl (AttributeError ([CHR 0x27] @ ''NoneType'' @ [CHR 0x27] @ '' object has no attribute ''
                            @ [CHR 0x27] @ ''get'' @ [CHR 0x27]))"
  by (simp add: example_null_music_body_def metadata_of_def get_or_get_def get_or_nested_def
        dict_get_def no_attribute_get_def)

lemma fetch_metadata_null_music:
  "fetch_metadata example_settings example_scraper u
      (upstream (respond 200 ''ok'' (Inr example_null_music_body)) t)
   = Inl (AttributeError ([CHR 0x27] @ ''NoneType'' @ [CHR 0x27] @ '' object has no attribute ''
                            @ [CHR 0x27] @ ''get'' @ [CHR 0x27]))"
  by (simp add: fetch_metadata_response
          [where r = "\<lparr> status_code = 200, resp_text = ''ok'', resp_json = Inr example_null_music_body \<rparr>"]
        ep_meta respond_def metadata_of_null_music)

text \<open>
  Claim C4 at the payload \<^verbatim>\<open>{"music": null}\<close>: the key \<^verbatim>\<open>music\<close> is present and its
  value is not an object, so \<^verbatim>\<open>data.get("music", {})\<close> is \<^verbatim>\<open>None\<close> and the call of
  \<^verbatim>\<open>.get\<close> on it raises \<^verbatim>\<open>AttributeError\<close>. \<^verbatim>\<open>_fetch_metadata\<close> raises it, and
  \<^verbatim>\<open>fetch_tiktok_data\<close> fails with a \<^verbatim>\<open>SupadataAPIError\<close> instead of returning a
  record whose \<^verbatim>\<open>audio_url\<close> is null.
\<close>

theorem mapper_raises_on_null_container:
  "metadata_of (JObj [(''music'', JNull)])
     = Inl (AttributeError ([CHR 0x27] @ ''NoneType'' @ [CHR 0x27] @ '' object has no attribute ''
                            @ [CHR 0x27] @ ''get'' @ [CHR 0x27]))
   \<and> fetch_metadata example_settings example_scraper
       ''https://www.tiktok.com/@user/video/7000000000000000000''
       (upstream (respond 200 ''ok'' (Inr (JObj [(''music'', JNull)])))
                 (respond 404 ''not found'' (Inl ''Expecting value'')))
     = Inl (AttributeError ([CHR 0x27] @ ''NoneType'' @ [CHR 0x27] @ '' object has no attribute ''
                            @ [CHR 0x27] @ ''get'' @ [CHR 0x27]))
   \<and> fetch_tiktok_data example_settings example_scraper
       (example_env (upstream (respond 200 ''ok'' (Inr (JObj [(''music'', JNull)])))
                              (respond 404 ''not found'' (Inl ''Expecting value''))) MetadataTask)
       ''https://vt.tiktok.com/ABC123/''
     = Inl (SupadataAPIError
              (''Failed to fetch TikTok data: '' @ [CHR 0x27] @ ''NoneType'' @ [CHR 0x27]
                 @ '' object has no attribute '' @ [CHR 0x27] @ ''get'' @ [CHR 0x27]) None)"
proof -
  have body: "JObj [(''music'', JNull)] = example_null_music_body"
    by (simp add: example_null_music_body_def)
  have "fetch_tiktok_data example_settings example_scraper
       (example_env (upstream (respond 200 ''ok'' (Inr example_null_music_body))
                              (respond 404 ''not found'' (Inl ''Expecting value''))) MetadataTask)
       ''https://vt.tiktok.com/ABC123/''
     = Inl (except_clauses (AttributeError ([CHR 0x27] @ ''NoneType'' @ [CHR 0x27] @ '' object has no attribute ''
                            @ [CHR 0x27] @ ''get'' @ [CHR 0x27])))"
    by (rule run_raises [where c = "''https://vt.tiktok.com/ABC123/''"
          and u = "''https://www.tiktok.com/@user/video/7000000000000000000''"
          and vid = "''7000000000000000000''" and tr = None])
       (simp_all add: example_env_def fetch_metadata_null_music fetch_transcript_example_404)
  then show ?thesis
    unfolding body by (simp add: metadata_of_null_music fetch_metadata_null_music)
qed

text \<open>
  Claim C5 as the specification states it fails at the payload
  \<^verbatim>\<open>{"likes": 0, "stats": {"diggCount": 5}}\<close>: the flat key \<^verbatim>\<open>likes\<close> is present, with
  the value 0, and the mapped \<^verbatim>\<open>likes\<close> is the nested 5, since \<^verbatim>\<open>or\<close> passes over a
  falsy first operand.
\<close>

theorem falsy_flat_value_counterexample:
  "metadata_of (JObj [(''likes'', JInt 0), (''stats'', JObj [(''diggCount'', JInt 5)])])
     = Inr \<lparr> meta_title = JNull, meta_description = JNull, meta_audio_url = JNull,
             meta_author = JNull, meta_likes = JInt 5, meta_views = JNull, meta_shares = JNull,
             meta_comments = JNull \<rparr>
   \<and> spec_field [(''likes'', JInt 0), (''stats'', JObj [(''diggCount'', JInt 5)])] ''likes''
        (nested_get [(''likes'', JInt 0), (''stats'', JObj [(''diggCount'', JInt 5)])]
           ''stats'' ''diggCount'')
     = JInt 0
   \<and> JInt 5 \<noteq> JInt 0"
  by (simp add: metadata_of_def get_or_get_def get_or_nested_def dict_get_def spec_field_def)

text \<open>
  Claim C5, amended. For every payload that is an object, each field is the value of the
  flat key when that value is truthy, and otherwise the value under the alias (the flat
  key \<^verbatim>\<open>desc\<close> for the title and the description, the nested key for the others),
  which is null when the alias is absent; this is stated for the payloads in which, for
  each field with a nested alias, the flat value is truthy or the container is absent or
  an object. In particular a payload with no flat \<^verbatim>\<open>likes\<close> and a value under
  \<^verbatim>\<open>stats.diggCount\<close> is mapped to that value.
\<close>

theorem metadata_fallback_order:
  assumes "fallback_ok kv ''audio_url'' ''music''"
      and "fallback_ok kv ''author'' ''author''"
      and "fallback_ok kv ''likes'' ''stats''"
      and "fallback_ok kv ''views'' ''stats''"
      and "fallback_ok kv ''shares'' ''stats''"
      and "fallback_ok kv ''comments'' ''stats''"
  shows "\<exists>m. metadata_of (JObj kv) = Inr m
     \<and> meta_title m = first_truthy (dict_get kv ''title'') (dict_get kv ''desc'')
     \<and> meta_description m = first_truthy (dict_get kv ''description'') (dict_get kv ''desc'')
     \<and> meta_audio_url m = first_truthy (dict_get kv ''audio_url'') (nested_get kv ''music'' ''playUrl'')
     \<and> meta_author m = first_truthy (dict_get kv ''author'') (nested_get kv ''author'' ''uniqueId'')
     \<and> meta_likes m = first_truthy (dict_get kv ''likes'') (nested_get kv ''stats'' ''diggCount'')
     \<and> meta_views m = first_truthy (dict_get kv ''views'') (nested_get kv ''stats'' ''playCount'')
     \<and> meta_shares m = first_truthy (dict_get kv ''shares'') (nested_get kv ''stats'' ''shareCount'')
     \<and> meta_comments m = first_truthy (dict_get kv ''comments'') (nested_get kv ''stats'' ''commentCount'')
     \<and> (\<forall>sub v. map_of kv ''likes'' = None \<and> map_of kv ''stats'' = Some (JObj sub)
            \<and> map_of sub ''diggCount'' = Some v \<longrightarrow> meta_likes m = v)"
proof -
  have "first_truthy (dict_get kv ''likes'') (nested_get kv ''stats'' ''diggCount'') = v"
    if "map_of kv ''likes'' = None" "map_of kv ''stats'' = Some (JObj sub)"
       "map_of sub ''diggCount'' = Some v" for sub v
    using that by (simp add: first_truthy_def dict_get_def nested_get_def)
  then show ?thesis
    by (simp add: metadata_of_def get_or_get_dict get_or_nested_dict [OF assms(1)]
          get_or_nested_dict [OF assms(2)] get_or_nested_dict [OF assms(3)]
          get_or_nested_dict [OF assms(4)] get_or_nested_dict [OF assms(5)]
          get_or_nested_dict [OF assms(6)])
qed

theorem metadata_fallback_order_witness:
  "fallback_ok [(''desc'', JStr ''hello''), (''stats'', JObj [(''diggCount'', JInt 5)])] ''likes'' ''stats''
   \<and> (\<exists>m. metadata_of (JObj [(''desc'', JStr ''hello''), (''stats'', JObj [(''diggCount'', JInt 5)])]) = Inr m
        \<and> meta_title m = JStr ''hello'' \<and> meta_description m = JStr ''hello''
        \<and> meta_audio_url m = JNull \<and> meta_likes m = JInt 5 \<and> meta_views m = JNull)"
proof -
  let ?kv = "[(''desc'', JStr ''hello''), (''stats'', JObj [(''diggCount'', JInt 5)])]"
  have ok: "fallback_ok ?kv ''audio_url'' ''music''" "fallback_ok ?kv ''author'' ''author''"
    "fallback_ok ?kv ''likes'' ''stats''" "fallback_ok ?kv ''views'' ''stats''"
    "fallback_ok ?kv ''shares'' ''stats''" "fallback_ok ?kv ''comments'' ''stats''"
    by (simp_all add: fallback_ok_def dict_get_def)
  from metadata_fallback_order [OF ok] obtain m where
    m: "metadata_of (JObj ?kv) = Inr m"
    and "meta_title m = first_truthy (dict_get ?kv ''title'') (dict_get ?kv ''desc'')"
    and "meta_description m = first_truthy (dict_get ?kv ''description'') (dict_get ?kv ''desc'')"
    and "meta_audio_url m = first_truthy (dict_get ?kv ''audio_url'') (nested_get ?kv ''music'' ''playUrl'')"
    and "meta_views m = first_truthy (dict_get ?kv ''views'') (nested_get ?kv ''stats'' ''playCount'')"
    and l: "\<forall>sub v. map_of ?kv ''likes'' = None \<and> map_of ?kv ''stats'' = Some (JObj sub)
            \<and> map_of sub ''diggCount'' = Some v \<longrightarrow> meta_likes m = v"
    by blast
  then have f: "meta_title m = JStr ''hello''" "meta_description m = JStr ''hello''"
    "meta_audio_url m = JNull" "meta_views m = JNull"
    by (simp_all add: first_truthy_def dict_get_def nested_get_def)
  from l have "meta_likes m = JInt 5" by simp
  with m f ok(3) show ?thesis by blast
qed

end
